theory Spec2Isabelle
  imports Main "HOL-Library.AList"
begin

section \<open>Conventions of the embedding\<close>

text \<open>
  The library catalog of \<^verbatim>\<open>Biblioteca.ts\<close> and its three entity classes are embedded
  function by function.

  \<^item> A JavaScript \<^verbatim>\<open>number\<close> used as an identifier, a counter or a year is an \<open>int\<close>
    (the counters start at 1 and grow by one, and a double is exact below \<open>2 ^ 53\<close>).
  \<^item> A \<^verbatim>\<open>string\<close> is a \<open>string\<close>; an optional field (\<^verbatim>\<open>undefined\<close> when absent) is an
    \<open>option\<close>.
  \<^item> A method that mutates \<^verbatim>\<open>this\<close> returns its result paired with the updated object.
  \<^item> A \<^verbatim>\<open>Map<number, T>\<close> is an association list in insertion order: \<^verbatim>\<open>get\<close> is
    \<open>map_of\<close>, \<^verbatim>\<open>set\<close> replaces the value of a present key where it stands and appends
    an absent key at the end, \<^verbatim>\<open>values()\<close> lists the values in that order.
  \<^item> \<^verbatim>\<open>new Date().toISOString()\<close> reads the system clock; the string it returns is an
    argument \<open>ahora\<close> of the two operations that read it.
  \<^item> The storage port is a field of the state holding what \<^verbatim>\<open>storage.load()\<close> would
    return: \<open>None\<close> for \<^verbatim>\<open>null\<close>, otherwise the last snapshot given to
    \<^verbatim>\<open>storage.save\<close>, kept as a value as the JSON adapter writes it.
  \<^item> Console output is not modelled.
\<close>

section \<open>Map<number, T>\<close>

definition Map_get :: "(int \<times> 'v) list \<Rightarrow> int \<Rightarrow> 'v option" where
  "Map_get m k = map_of m k"

text \<open>
  \<open>AList.update\<close> walks the list to the first pair with the key and replaces its value
  there; it adds the pair at the end when it finds none (\<open>Map_set_eqs\<close> below).
\<close>

definition Map_set :: "int \<Rightarrow> 'v \<Rightarrow> (int \<times> 'v) list \<Rightarrow> (int \<times> 'v) list" where
  "Map_set k v m = AList.update k v m"

definition Map_values :: "(int \<times> 'v) list \<Rightarrow> 'v list" where
  "Map_values m = map snd m"


section \<open>Libro\<close>

record Libro =
  l_id :: int
  titulo :: string
  autor :: string
  anio :: int
  disponible :: bool

text \<open>The constructor: every new book starts available.\<close>

definition new_Libro :: "int \<Rightarrow> string \<Rightarrow> string \<Rightarrow> int \<Rightarrow> Libro" where
  "new_Libro i t a y = \<lparr>l_id = i, titulo = t, autor = a, anio = y, disponible = True\<rparr>"

definition isDisponible :: "Libro \<Rightarrow> bool" where
  "isDisponible l = disponible l"

definition Libro_prestar :: "Libro \<Rightarrow> bool \<times> Libro" where
  "Libro_prestar l =
     (if \<not> disponible l then (False, l)
      else (True, l\<lparr>disponible := False\<rparr>))"

definition Libro_devolver :: "Libro \<Rightarrow> bool \<times> Libro" where
  "Libro_devolver l =
     (if disponible l then (False, l)
      else (True, l\<lparr>disponible := True\<rparr>))"

text \<open>
  The object \<^verbatim>\<open>toJSON\<close> builds. On the way back \<^verbatim>\<open>fromJSON\<close> tests
  \<^verbatim>\<open>typeof obj.disponible === "boolean"\<close>, so the field is optional in a snapshot:
  \<open>None\<close> stands for a missing or non-boolean value.
\<close>

record LibroJSON =
  j_id :: int
  j_titulo :: string
  j_autor :: string
  j_anio :: int
  j_disponible :: "bool option"

definition Libro_toJSON :: "Libro \<Rightarrow> LibroJSON" where
  "Libro_toJSON l =
     \<lparr>j_id = l_id l, j_titulo = titulo l, j_autor = autor l, j_anio = anio l,
      j_disponible = Some (disponible l)\<rparr>"

definition Libro_fromJSON :: "LibroJSON \<Rightarrow> Libro" where
  "Libro_fromJSON obj =
     (let libro = new_Libro (j_id obj) (j_titulo obj) (j_autor obj) (j_anio obj)
      in if j_disponible obj = Some False then snd (Libro_prestar libro) else libro)"

section \<open>Usuario\<close>

record Usuario =
  u_id :: int
  nombre :: string

record UsuarioJSON =
  ju_id :: int
  ju_nombre :: string

definition Usuario_toJSON :: "Usuario \<Rightarrow> UsuarioJSON" where
  "Usuario_toJSON u = \<lparr>ju_id = u_id u, ju_nombre = nombre u\<rparr>"

definition Usuario_fromJSON :: "UsuarioJSON \<Rightarrow> Usuario" where
  "Usuario_fromJSON obj = \<lparr>u_id = ju_id obj, nombre = ju_nombre obj\<rparr>"

section \<open>Prestamo\<close>

record Prestamo =
  p_id :: int
  libroId :: int
  usuarioId :: int
  fechaPrestamo :: string
  fechaDevolucion :: "string option"

text \<open>The constructor called with four arguments leaves \<^verbatim>\<open>fechaDevolucion\<close> undefined.\<close>

definition new_Prestamo :: "int \<Rightarrow> int \<Rightarrow> int \<Rightarrow> string \<Rightarrow> Prestamo" where
  "new_Prestamo i b u f =
     \<lparr>p_id = i, libroId = b, usuarioId = u, fechaPrestamo = f, fechaDevolucion = None\<rparr>"

text \<open>
  \<^verbatim>\<open>return !this.fechaDevolucion\<close>: the negation of a JavaScript value is true for
  \<^verbatim>\<open>undefined\<close> and for the empty string, false for every other string.
\<close>

definition isActivo :: "Prestamo \<Rightarrow> bool" where
  "isActivo p = (case fechaDevolucion p of None \<Rightarrow> True | Some f \<Rightarrow> f = [])"

definition Prestamo_devolver :: "string \<Rightarrow> Prestamo \<Rightarrow> bool \<times> Prestamo" where
  "Prestamo_devolver fecha p =
     (if \<not> isActivo p then (False, p)
      else (True, p\<lparr>fechaDevolucion := Some fecha\<rparr>))"

record PrestamoJSON =
  jp_id :: int
  jp_libroId :: int
  jp_usuarioId :: int
  jp_fechaPrestamo :: string
  jp_fechaDevolucion :: "string option"

definition Prestamo_toJSON :: "Prestamo \<Rightarrow> PrestamoJSON" where
  "Prestamo_toJSON p =
     \<lparr>jp_id = p_id p, jp_libroId = libroId p, jp_usuarioId = usuarioId p,
      jp_fechaPrestamo = fechaPrestamo p, jp_fechaDevolucion = fechaDevolucion p\<rparr>"

definition Prestamo_fromJSON :: "PrestamoJSON \<Rightarrow> Prestamo" where
  "Prestamo_fromJSON obj =
     \<lparr>p_id = jp_id obj, libroId = jp_libroId obj, usuarioId = jp_usuarioId obj,
      fechaPrestamo = jp_fechaPrestamo obj, fechaDevolucion = jp_fechaDevolucion obj\<rparr>"

section \<open>Biblioteca\<close>

record NextIds =
  libro :: int
  usuario :: int
  prestamo :: int

text \<open>
  \<^verbatim>\<open>DBShape\<close>, the snapshot handed to the storage port. \<^verbatim>\<open>load\<close> tests each array with
  \<^verbatim>\<open>Array.isArray\<close> and \<^verbatim>\<open>nextIds\<close> for truthiness, so each field is optional in a
  snapshot read back: \<open>None\<close> stands for a value that fails the test.
\<close>

record DBShape =
  db_libros :: "LibroJSON list option"
  db_usuarios :: "UsuarioJSON list option"
  db_prestamos :: "PrestamoJSON list option"
  db_nextIds :: "NextIds option"

record Biblioteca =
  libros :: "(int \<times> Libro) list"
  usuarios :: "(int \<times> Usuario) list"
  prestamos :: "(int \<times> Prestamo) list"
  nextIds :: NextIds
  storage :: "DBShape option"

definition snapshot :: "Biblioteca \<Rightarrow> DBShape" where
  "snapshot s =
     \<lparr>db_libros = Some (map Libro_toJSON (Map_values (libros s))),
      db_usuarios = Some (map Usuario_toJSON (Map_values (usuarios s))),
      db_prestamos = Some (map Prestamo_toJSON (Map_values (prestamos s))),
      db_nextIds = Some (nextIds s)\<rparr>"

definition save :: "Biblioteca \<Rightarrow> Biblioteca" where
  "save s = s\<lparr>storage := Some (snapshot s)\<rparr>"

definition load :: "Biblioteca \<Rightarrow> Biblioteca" where
  "load s =
     (case storage s of
        None \<Rightarrow> s
      | Some data \<Rightarrow>
          (let s1 = (case db_libros data of
                       None \<Rightarrow> s
                     | Some lbs \<Rightarrow>
                         s\<lparr>libros := foldl (\<lambda>m lb. Map_set (j_id lb) (Libro_fromJSON lb) m)
                                        (libros s) lbs\<rparr>);
               s2 = (case db_usuarios data of
                       None \<Rightarrow> s1
                     | Some uss \<Rightarrow>
                         s1\<lparr>usuarios := foldl (\<lambda>m us. Map_set (ju_id us) (Usuario_fromJSON us) m)
                                           (usuarios s1) uss\<rparr>);
               s3 = (case db_prestamos data of
                       None \<Rightarrow> s2
                     | Some prs \<Rightarrow>
                         s2\<lparr>prestamos := foldl (\<lambda>m pr. Map_set (jp_id pr) (Prestamo_fromJSON pr) m)
                                            (prestamos s2) prs\<rparr>)
           in (case db_nextIds data of
                 None \<Rightarrow> s3
               | Some n \<Rightarrow> s3\<lparr>nextIds := n\<rparr>)))"

text \<open>
  The constructor: the field initialisers (three empty maps, counters at 1), the storage
  it is given, then \<^verbatim>\<open>this.load()\<close>.
\<close>

definition new_Biblioteca :: "DBShape option \<Rightarrow> Biblioteca" where
  "new_Biblioteca st =
     load \<lparr>libros = [], usuarios = [], prestamos = [],
           nextIds = \<lparr>libro = 1, usuario = 1, prestamo = 1\<rparr>, storage = st\<rparr>"

definition crearLibro :: "string \<Rightarrow> string \<Rightarrow> int \<Rightarrow> Biblioteca \<Rightarrow> Libro \<times> Biblioteca" where
  "crearLibro t a y s =
     (let i = libro (nextIds s);
          s1 = s\<lparr>nextIds := (nextIds s)\<lparr>libro := i + 1\<rparr>\<rparr>;
          l = new_Libro i t a y;
          s2 = s1\<lparr>libros := Map_set i l (libros s1)\<rparr>
      in (l, save s2))"

definition listarLibros :: "Biblioteca \<Rightarrow> Libro list" where
  "listarLibros s = Map_values (libros s)"

definition crearUsuario :: "string \<Rightarrow> Biblioteca \<Rightarrow> Usuario \<times> Biblioteca" where
  "crearUsuario n s =
     (let i = usuario (nextIds s);
          s1 = s\<lparr>nextIds := (nextIds s)\<lparr>usuario := i + 1\<rparr>\<rparr>;
          u = \<lparr>u_id = i, nombre = n\<rparr>;
          s2 = s1\<lparr>usuarios := Map_set i u (usuarios s1)\<rparr>
      in (u, save s2))"

definition listarUsuarios :: "Biblioteca \<Rightarrow> Usuario list" where
  "listarUsuarios s = Map_values (usuarios s)"

text \<open>
  The result objects \<^verbatim>\<open>{ ok, mensaje }\<close> and \<^verbatim>\<open>{ ok, mensaje, prestamo }\<close>. The two
  messages with an accented letter are spelled in UTF-8.
\<close>

record Resultado =
  ok :: bool
  mensaje :: string

record ResultadoPrestamo = Resultado +
  r_prestamo :: "Prestamo option"

definition Prestamo_txt :: string where
  "Prestamo_txt = ''Pr'' @ [CHR 0xC3, CHR 0xA9] @ ''stamo''"

definition prestarLibro ::
  "string \<Rightarrow> int \<Rightarrow> int \<Rightarrow> Biblioteca \<Rightarrow> ResultadoPrestamo \<times> Biblioteca" where
  "prestarLibro ahora libroId' usuarioId' s =
     (case Map_get (libros s) libroId' of
        None \<Rightarrow> (\<lparr>ok = False, mensaje = ''Libro no encontrado'', r_prestamo = None\<rparr>, s)
      | Some l \<Rightarrow>
          (case Map_get (usuarios s) usuarioId' of
             None \<Rightarrow> (\<lparr>ok = False, mensaje = ''Usuario no encontrado'', r_prestamo = None\<rparr>, s)
           | Some u \<Rightarrow>
               if \<not> isDisponible l
               then (\<lparr>ok = False, mensaje = ''Libro no disponible'', r_prestamo = None\<rparr>, s)
               else
                 (let i = prestamo (nextIds s);
                      s1 = s\<lparr>nextIds := (nextIds s)\<lparr>prestamo := i + 1\<rparr>\<rparr>;
                      p = new_Prestamo i libroId' usuarioId' ahora;
                      s2 = s1\<lparr>libros := Map_set libroId' (snd (Libro_prestar l)) (libros s1)\<rparr>;
                      s3 = s2\<lparr>prestamos := Map_set i p (prestamos s2)\<rparr>
                  in (\<lparr>ok = True, mensaje = Prestamo_txt @ '' registrado'',
                       r_prestamo = Some p\<rparr>, save s3))))"

definition devolverLibro :: "string \<Rightarrow> int \<Rightarrow> Biblioteca \<Rightarrow> Resultado \<times> Biblioteca" where
  "devolverLibro ahora prestamoId s =
     (case Map_get (prestamos s) prestamoId of
        None \<Rightarrow> (\<lparr>ok = False, mensaje = Prestamo_txt @ '' no encontrado''\<rparr>, s)
      | Some p \<Rightarrow>
          if \<not> isActivo p then (\<lparr>ok = False, mensaje = ''Ya devuelto''\<rparr>, s)
          else
            (case Map_get (libros s) (libroId p) of
               None \<Rightarrow> (\<lparr>ok = False, mensaje = ''Libro inexistente''\<rparr>, s)
             | Some l \<Rightarrow>
                 (let s1 = s\<lparr>prestamos :=
                             Map_set prestamoId (snd (Prestamo_devolver ahora p)) (prestamos s)\<rparr>;
                      s2 = s1\<lparr>libros := Map_set (libroId p) (snd (Libro_devolver l)) (libros s1)\<rparr>
                  in (\<lparr>ok = True, mensaje = ''Libro devuelto''\<rparr>, save s2))))"

definition listarPrestamos :: "bool \<Rightarrow> Biblioteca \<Rightarrow> Prestamo list" where
  "listarPrestamos activosOnly s =
     (let arr = Map_values (prestamos s)
      in if activosOnly then filter isActivo arr else arr)"



text \<open>
  The full snapshot of a state, written from the public listings: every book, patron and
  loan serialized by its \<^verbatim>\<open>toJSON\<close>, in the order of the listings, and the three counters.
\<close>

abbreviation instantanea_completa :: "Biblioteca \<Rightarrow> DBShape" where
  "instantanea_completa s \<equiv>
     \<lparr>db_libros = Some (map Libro_toJSON (listarLibros s)),
      db_usuarios = Some (map Usuario_toJSON (listarUsuarios s)),
      db_prestamos = Some (map Prestamo_toJSON (listarPrestamos False s)),
      db_nextIds = Some (nextIds s)\<rparr>"

section \<open>Sequences of calls\<close>

text \<open>
  A call of one of the four mutating operations, with its arguments. The two operations
  that read the clock carry the string \<^verbatim>\<open>new Date().toISOString()\<close> returned as their
  first component. \<open>ejecutar\<close> runs one call and keeps the state; a sequence of calls is
  \<open>foldl ejecutar\<close>.
\<close>

datatype llamada =
    CrearLibro string string int
  | CrearUsuario string
  | PrestarLibro string int int
  | DevolverLibro string int

fun ejecutar :: "Biblioteca \<Rightarrow> llamada \<Rightarrow> Biblioteca" where
  "ejecutar s (CrearLibro t a y) = snd (crearLibro t a y s)"
| "ejecutar s (CrearUsuario n) = snd (crearUsuario n s)"
| "ejecutar s (PrestarLibro ahora b u) = snd (prestarLibro ahora b u s)"
| "ejecutar s (DevolverLibro ahora pid) = snd (devolverLibro ahora pid s)"

text \<open>
  \<^verbatim>\<open>toISOString\<close> returns a string of 24 or 27 characters, never the empty one: that is
  all the development needs to know about a clock reading.
\<close>

fun reloj_ok :: "llamada \<Rightarrow> bool" where
  "reloj_ok (PrestarLibro ahora b u) = (ahora \<noteq> [])"
| "reloj_ok (DevolverLibro ahora pid) = (ahora \<noteq> [])"
| "reloj_ok c = True"

section \<open>Invariants\<close>

definition claves :: "(int \<times> 'v) list \<Rightarrow> int set" where
  "claves m = fst ` set m"

definition valores :: "(int \<times> 'v) list \<Rightarrow> 'v set" where
  "valores m = snd ` set m"

text \<open>
  What a \<^verbatim>\<open>Map\<close> of entities satisfies: no key twice, and every entity stored under its own
  identifier.
\<close>

definition claves_por :: "('v \<Rightarrow> int) \<Rightarrow> (int \<times> 'v) list \<Rightarrow> bool" where
  "claves_por idf m \<longleftrightarrow> distinct (map fst m) \<and> (\<forall>(k, v) \<in> set m. idf v = k)"

definition claves_ok :: "Biblioteca \<Rightarrow> bool" where
  "claves_ok s \<longleftrightarrow>
     claves_por l_id (libros s) \<and> claves_por u_id (usuarios s) \<and> claves_por p_id (prestamos s)"

text \<open>The active loans that reference a book, as \<^verbatim>\<open>listarPrestamos(true)\<close> lists them.\<close>

definition prestamos_activos_de :: "Biblioteca \<Rightarrow> int \<Rightarrow> Prestamo list" where
  "prestamos_activos_de s b = filter (\<lambda>p. libroId p = b) (listarPrestamos True s)"

definition n_activos :: "(int \<times> Prestamo) list \<Rightarrow> int \<Rightarrow> nat" where
  "n_activos m b = length (filter (\<lambda>p. isActivo p \<and> libroId p = b) (map snd m))"

text \<open>
  The counters lie above every identifier in use, and every loan references a book of the
  catalog.
\<close>

definition contadores_ok :: "Biblioteca \<Rightarrow> bool" where
  "contadores_ok s \<longleftrightarrow>
     (\<forall>k \<in> claves (libros s). k < libro (nextIds s))
   \<and> (\<forall>k \<in> claves (prestamos s). k < prestamo (nextIds s))
   \<and> (\<forall>p \<in> valores (prestamos s). libroId p \<in> claves (libros s))"

definition prestamos_ok :: "Biblioteca \<Rightarrow> bool" where
  "prestamos_ok s \<longleftrightarrow>
     (\<forall>b. n_activos (prestamos s) b \<le> 1)
   \<and> (\<forall>(k, l) \<in> set (libros s). \<not> disponible l \<longleftrightarrow> n_activos (prestamos s) k = 1)"

definition inv :: "Biblioteca \<Rightarrow> bool" where
  "inv s \<longleftrightarrow> claves_ok s \<and> contadores_ok s \<and> prestamos_ok s"

section \<open>Example data\<close>

text \<open>
  A snapshot as a hand-edited file could hold it: book 2 is on loan with one closed and one
  active loan, loan 3 references a book that does not exist, and loan 4 is active on
  book 1 although book 1 is marked available.
\<close>

definition datos_ej :: DBShape where
  "datos_ej =
     \<lparr>db_libros = Some
        [\<lparr>j_id = 1, j_titulo = ''Cien anos de soledad'', j_autor = ''Gabriel Garcia Marquez'',
          j_anio = 1967, j_disponible = Some True\<rparr>,
         \<lparr>j_id = 2, j_titulo = ''Don Quijote de la Mancha'', j_autor = ''Miguel de Cervantes'',
          j_anio = 1605, j_disponible = Some False\<rparr>],
      db_usuarios = Some [\<lparr>ju_id = 1, ju_nombre = ''Ana Perez''\<rparr>],
      db_prestamos = Some
        [\<lparr>jp_id = 1, jp_libroId = 2, jp_usuarioId = 1,
          jp_fechaPrestamo = ''2024-01-01T10:00:00.000Z'',
          jp_fechaDevolucion = Some ''2024-01-08T10:00:00.000Z''\<rparr>,
         \<lparr>jp_id = 2, jp_libroId = 2, jp_usuarioId = 1,
          jp_fechaPrestamo = ''2024-02-01T10:00:00.000Z'', jp_fechaDevolucion = None\<rparr>,
         \<lparr>jp_id = 3, jp_libroId = 99, jp_usuarioId = 1,
          jp_fechaPrestamo = ''2024-02-02T10:00:00.000Z'', jp_fechaDevolucion = None\<rparr>,
         \<lparr>jp_id = 4, jp_libroId = 1, jp_usuarioId = 1,
          jp_fechaPrestamo = ''2024-02-03T10:00:00.000Z'', jp_fechaDevolucion = None\<rparr>],
      db_nextIds = Some \<lparr>libro = 3, usuario = 2, prestamo = 5\<rparr>\<rparr>"

definition biblio_ej :: Biblioteca where
  "biblio_ej = new_Biblioteca (Some datos_ej)"

definition libro1_ej :: Libro where
  "libro1_ej =
     \<lparr>l_id = 1, titulo = ''Cien anos de soledad'', autor = ''Gabriel Garcia Marquez'',
      anio = 1967, disponible = True\<rparr>"

definition libro2_ej :: Libro where
  "libro2_ej =
     \<lparr>l_id = 2, titulo = ''Don Quijote de la Mancha'', autor = ''Miguel de Cervantes'',
      anio = 1605, disponible = False\<rparr>"

definition prestamo_ej :: "int \<Rightarrow> int \<Rightarrow> string \<Rightarrow> string option \<Rightarrow> Prestamo" where
  "prestamo_ej i b f d =
     \<lparr>p_id = i, libroId = b, usuarioId = 1, fechaPrestamo = f, fechaDevolucion = d\<rparr>"

definition ahora_ej :: string where
  "ahora_ej = ''2024-03-01T10:00:00.000Z''"

definition llamadas_ej :: "llamada list" where
  "llamadas_ej =
     [CrearLibro ''Cien anos de soledad'' ''Gabriel Garcia Marquez'' 1967,
      CrearUsuario ''Ana Perez'',
      PrestarLibro ''2024-01-01T10:00:00.000Z'' 1 1,
      PrestarLibro ''2024-01-02T10:00:00.000Z'' 1 1,
      DevolverLibro ''2024-01-08T10:00:00.000Z'' 1,
      DevolverLibro ''2024-01-09T10:00:00.000Z'' 1]"

section \<open>Auxiliary facts\<close>

lemma Map_set_eqs:
  "Map_set k v [] = [(k, v)]"
  "Map_set k v ((k', v') # m) = (if k' = k then (k, v) # m else (k', v') # Map_set k v m)"
  by (simp_all add: Map_set_def)

lemma Map_get_set_same: "Map_get (Map_set k v m) k = Some v"
  by (simp add: Map_get_def Map_set_def update_conv')


lemma Map_values_set: "v \<in> set (Map_values (Map_set k v m))"
  unfolding Map_values_def Map_set_def by (induction m) auto

lemma storage_save_completa: "storage (save s) = Some (instantanea_completa (save s))"
  by (simp add: save_def snapshot_def listarLibros_def listarUsuarios_def listarPrestamos_def)

lemma update_fresh: "k \<notin> fst ` set m \<Longrightarrow> AList.update k v m = m @ [(k, v)]"
  by (induction m) auto

lemma set_update_distinct:
  "distinct (map fst m) \<Longrightarrow>
     set (AList.update k v m) = insert (k, v) {x \<in> set m. fst x \<noteq> k}"
  by (induction m) (auto simp: rev_image_eqI)

lemma claves_por_Nil: "claves_por idf []"
  by (simp add: claves_por_def)

lemma claves_por_set:
  "claves_por idf m \<Longrightarrow> idf v = k \<Longrightarrow> claves_por idf (Map_set k v m)"
  unfolding claves_por_def Map_set_def
  by (auto simp: distinct_update set_update_distinct)

lemma claves_por_get:
  "claves_por idf m \<Longrightarrow> Map_get m k = Some v \<Longrightarrow> idf v = k"
  unfolding claves_por_def Map_get_def by (auto dest: map_of_SomeD)

lemma claves_por_modificar:
  "claves_por idf m \<Longrightarrow> Map_get m k = Some v \<Longrightarrow> idf v' = idf v \<Longrightarrow>
     claves_por idf (Map_set k v' m)"
  using claves_por_get[of idf m k v] by (simp add: claves_por_set)

lemma claves_por_foldl:
  "claves_por idf m \<Longrightarrow> (\<And>j. idf (fromJ j) = jid j) \<Longrightarrow>
     claves_por idf (foldl (\<lambda>acc j. Map_set (jid j) (fromJ j) acc) m js)"
  by (induction js arbitrary: m) (simp_all add: claves_por_set)

lemma id_Libro_fromJSON: "l_id (Libro_fromJSON j) = j_id j"
  by (simp add: Libro_fromJSON_def new_Libro_def Libro_prestar_def Let_def)

lemma id_Usuario_fromJSON: "u_id (Usuario_fromJSON j) = ju_id j"
  by (simp add: Usuario_fromJSON_def)

lemma id_Prestamo_fromJSON: "p_id (Prestamo_fromJSON j) = jp_id j"
  by (simp add: Prestamo_fromJSON_def)

lemma claves_ok_new: "claves_ok (new_Biblioteca st)"
  unfolding claves_ok_def new_Biblioteca_def load_def
  by (auto simp: Let_def claves_por_Nil claves_por_foldl id_Libro_fromJSON
        id_Usuario_fromJSON id_Prestamo_fromJSON split: option.splits)

lemma claves_ok_crearLibro: "claves_ok s \<Longrightarrow> claves_ok (snd (crearLibro t a y s))"
  unfolding claves_ok_def crearLibro_def
  by (simp add: Let_def save_def claves_por_set new_Libro_def)

lemma claves_ok_crearUsuario: "claves_ok s \<Longrightarrow> claves_ok (snd (crearUsuario n s))"
  unfolding claves_ok_def crearUsuario_def
  by (simp add: Let_def save_def claves_por_set)

lemma claves_ok_prestarLibro: "claves_ok s \<Longrightarrow> claves_ok (snd (prestarLibro ahora b u s))"
  unfolding claves_ok_def prestarLibro_def
  by (auto simp: Let_def save_def claves_por_set new_Prestamo_def Libro_prestar_def
        intro: claves_por_modificar split: option.splits)

lemma claves_ok_devolverLibro: "claves_ok s \<Longrightarrow> claves_ok (snd (devolverLibro ahora pid s))"
  unfolding claves_ok_def devolverLibro_def
  by (auto simp: Let_def save_def Prestamo_devolver_def Libro_devolver_def
        intro: claves_por_modificar split: option.splits)

lemma claves_ok_ejecutar: "claves_ok s \<Longrightarrow> claves_ok (ejecutar s c)"
  by (cases c) (simp_all add: claves_ok_crearLibro claves_ok_crearUsuario
      claves_ok_prestarLibro claves_ok_devolverLibro)

lemma claves_ok_foldl: "claves_ok s \<Longrightarrow> claves_ok (foldl ejecutar s cs)"
  by (induction cs arbitrary: s) (simp_all add: claves_ok_ejecutar)

lemma foldl_roundtrip:
  assumes "\<And>v. fromJ (toJ v) = v" and "\<And>v. jid (toJ v) = idf v"
  shows "distinct (map fst (acc @ m)) \<Longrightarrow> \<forall>(k, v) \<in> set m. idf v = k \<Longrightarrow>
     foldl (\<lambda>a j. Map_set (jid j) (fromJ j) a) acc (map toJ (map snd m)) = acc @ m"
proof (induction m arbitrary: acc)
  case Nil
  then show ?case by simp
next
  case (Cons x m)
  obtain k v where x: "x = (k, v)" by (cases x)
  from Cons.prems x have kv: "idf v = k" and fresh: "k \<notin> fst ` set acc" by auto
  have step: "Map_set (jid (toJ v)) (fromJ (toJ v)) acc = acc @ [(k, v)]"
    using fresh by (simp add: assms kv Map_set_def update_fresh)
  have "distinct (map fst ((acc @ [(k, v)]) @ m))" using Cons.prems(1) x by simp
  moreover have "\<forall>(k, v) \<in> set m. idf v = k" using Cons.prems(2) by simp
  ultimately have "foldl (\<lambda>a j. Map_set (jid j) (fromJ j) a) (acc @ [(k, v)]) (map toJ (map snd m))
      = (acc @ [(k, v)]) @ m"
    by (rule Cons.IH)
  then show ?case using step x by simp
qed

lemma Libro_roundtrip: "Libro_fromJSON (Libro_toJSON l) = l"
  by (cases "disponible l")
     (simp_all add: Libro_fromJSON_def Libro_toJSON_def new_Libro_def Libro_prestar_def Let_def)

lemma Usuario_roundtrip: "Usuario_fromJSON (Usuario_toJSON u) = u"
  by (simp add: Usuario_fromJSON_def Usuario_toJSON_def)

lemma Prestamo_roundtrip: "Prestamo_fromJSON (Prestamo_toJSON p) = p"
  by (simp add: Prestamo_fromJSON_def Prestamo_toJSON_def)

lemma id_Libro_toJSON: "j_id (Libro_toJSON l) = l_id l"
  by (simp add: Libro_toJSON_def)

lemma id_Usuario_toJSON: "ju_id (Usuario_toJSON u) = u_id u"
  by (simp add: Usuario_toJSON_def)

lemma id_Prestamo_toJSON: "jp_id (Prestamo_toJSON p) = p_id p"
  by (simp add: Prestamo_toJSON_def)

lemma load_snapshot:
  assumes "claves_ok s"
  shows "libros (new_Biblioteca (Some (snapshot s))) = libros s
       \<and> usuarios (new_Biblioteca (Some (snapshot s))) = usuarios s
       \<and> prestamos (new_Biblioteca (Some (snapshot s))) = prestamos s
       \<and> nextIds (new_Biblioteca (Some (snapshot s))) = nextIds s"
proof -
  have L: "foldl (\<lambda>a j. Map_set (j_id j) (Libro_fromJSON j) a) []
             (map Libro_toJSON (map snd (libros s))) = [] @ libros s"
    using assms
    by (intro foldl_roundtrip[where idf = l_id])
       (auto simp: Libro_roundtrip id_Libro_toJSON claves_ok_def claves_por_def)
  have U: "foldl (\<lambda>a j. Map_set (ju_id j) (Usuario_fromJSON j) a) []
             (map Usuario_toJSON (map snd (usuarios s))) = [] @ usuarios s"
    using assms
    by (intro foldl_roundtrip[where idf = u_id])
       (auto simp: Usuario_roundtrip id_Usuario_toJSON claves_ok_def claves_por_def)
  have P: "foldl (\<lambda>a j. Map_set (jp_id j) (Prestamo_fromJSON j) a) []
             (map Prestamo_toJSON (map snd (prestamos s))) = [] @ prestamos s"
    using assms
    by (intro foldl_roundtrip[where idf = p_id])
       (auto simp: Prestamo_roundtrip id_Prestamo_toJSON claves_ok_def claves_por_def)
  show ?thesis
    using L U P
    by (simp add: new_Biblioteca_def load_def snapshot_def Map_values_def Let_def)
qed

lemma length_activos_de: "length (prestamos_activos_de s b) = n_activos (prestamos s) b"
  by (simp add: prestamos_activos_de_def listarPrestamos_def n_activos_def Map_values_def
      conj_commute)

lemma n_activos_nuevo:
  "k \<notin> claves m \<Longrightarrow>
     n_activos (Map_set k p m) b = n_activos m b + (if isActivo p \<and> libroId p = b then 1 else 0)"
  by (simp add: Map_set_def update_fresh n_activos_def claves_def)

lemma n_activos_modificar:
  "Map_get m k = Some p \<Longrightarrow>
     n_activos (Map_set k p' m) b + (if isActivo p \<and> libroId p = b then 1 else 0)
       = n_activos m b + (if isActivo p' \<and> libroId p' = b then 1 else 0)"
  unfolding Map_get_def Map_set_def n_activos_def
  by (induction m) (auto split: if_splits)

lemma n_activos_cero:
  "\<forall>p \<in> valores m. libroId p \<noteq> b \<Longrightarrow> n_activos m b = 0"
  unfolding n_activos_def valores_def by (induction m) auto

lemma claves_Map_set: "claves (Map_set k v m) = insert k (claves m)"
  by (simp add: Map_set_def dom_update claves_def)

lemma valores_Map_set: "x \<in> valores (Map_set k v m) \<Longrightarrow> x = v \<or> x \<in> valores m"
  unfolding Map_set_def valores_def by (induction m) (auto split: if_splits)

lemma Map_get_claves: "Map_get m k = Some v \<Longrightarrow> k \<in> claves m"
  unfolding Map_get_def claves_def by (metis map_of_SomeD fst_conv image_eqI)

lemma Map_get_in: "Map_get m k = Some v \<Longrightarrow> (k, v) \<in> set m"
  unfolding Map_get_def by (rule map_of_SomeD)

lemma set_Map_set:
  "distinct (map fst m) \<Longrightarrow> set (Map_set k v m) = insert (k, v) {x \<in> set m. fst x \<noteq> k}"
  by (simp add: Map_set_def set_update_distinct)

lemma inv_new: "inv (new_Biblioteca None)"
  by (simp add: inv_def claves_ok_new)
     (simp add: new_Biblioteca_def load_def contadores_ok_def prestamos_ok_def n_activos_def
        claves_def valores_def)

lemma crearLibro_efecto:
  "libros (snd (crearLibro t a y s))
     = Map_set (libro (nextIds s)) (new_Libro (libro (nextIds s)) t a y) (libros s)
   \<and> usuarios (snd (crearLibro t a y s)) = usuarios s
   \<and> prestamos (snd (crearLibro t a y s)) = prestamos s
   \<and> nextIds (snd (crearLibro t a y s)) = (nextIds s)\<lparr>libro := libro (nextIds s) + 1\<rparr>"
  by (simp add: crearLibro_def Let_def save_def)

lemma crearUsuario_efecto:
  "libros (snd (crearUsuario n s)) = libros s
   \<and> prestamos (snd (crearUsuario n s)) = prestamos s
   \<and> nextIds (snd (crearUsuario n s)) = (nextIds s)\<lparr>usuario := usuario (nextIds s) + 1\<rparr>"
  by (simp add: crearUsuario_def Let_def save_def)

lemma prestarLibro_efecto:
  "snd (prestarLibro ahora b u s) = s
   \<or> (\<exists>l. Map_get (libros s) b = Some l \<and> disponible l
        \<and> libros (snd (prestarLibro ahora b u s)) = Map_set b (l\<lparr>disponible := False\<rparr>) (libros s)
        \<and> prestamos (snd (prestarLibro ahora b u s))
            = Map_set (prestamo (nextIds s)) (new_Prestamo (prestamo (nextIds s)) b u ahora)
                (prestamos s)
        \<and> nextIds (snd (prestarLibro ahora b u s))
            = (nextIds s)\<lparr>prestamo := prestamo (nextIds s) + 1\<rparr>)"
  by (auto simp: prestarLibro_def Let_def save_def isDisponible_def Libro_prestar_def
        split: option.splits)

lemma devolverLibro_efecto:
  "snd (devolverLibro ahora pid s) = s
   \<or> (\<exists>p l. Map_get (prestamos s) pid = Some p \<and> isActivo p
        \<and> Map_get (libros s) (libroId p) = Some l
        \<and> prestamos (snd (devolverLibro ahora pid s))
            = Map_set pid (p\<lparr>fechaDevolucion := Some ahora\<rparr>) (prestamos s)
        \<and> libros (snd (devolverLibro ahora pid s))
            = Map_set (libroId p) (snd (Libro_devolver l)) (libros s)
        \<and> nextIds (snd (devolverLibro ahora pid s)) = nextIds s)"
  by (auto simp: devolverLibro_def Let_def save_def Prestamo_devolver_def
        split: option.splits)

lemma inv_crearLibro:
  assumes "inv s"
  shows "inv (snd (crearLibro t a y s))"
proof -
  let ?s' = "snd (crearLibro t a y s)"
  let ?i = "libro (nextIds s)"
  from assms have ck: "claves_ok s" and cn: "contadores_ok s" and po: "prestamos_ok s"
    by (simp_all add: inv_def)
  note ef = crearLibro_efecto[of t a y s]
  have fresh: "?i \<notin> claves (libros s)"
    using cn by (auto simp: contadores_ok_def)
  have "\<forall>p \<in> valores (prestamos s). libroId p \<noteq> ?i"
  proof
    fix p assume "p \<in> valores (prestamos s)"
    then have "libroId p \<in> claves (libros s)" using cn by (simp add: contadores_ok_def)
    then show "libroId p \<noteq> ?i" using fresh by auto
  qed
  then have zero: "n_activos (prestamos s) ?i = 0"
    by (rule n_activos_cero)
  have dist: "distinct (map fst (libros s))"
    using ck by (simp add: claves_ok_def claves_por_def)
  have "contadores_ok ?s'"
    using cn unfolding contadores_ok_def
    by (simp add: ef claves_Map_set) force
  moreover have "prestamos_ok ?s'"
    using po zero unfolding prestamos_ok_def
    by (auto simp: ef set_Map_set[OF dist] new_Libro_def)
  ultimately show ?thesis
    using ck by (simp add: inv_def claves_ok_crearLibro)
qed

lemma inv_crearUsuario:
  assumes "inv s"
  shows "inv (snd (crearUsuario n s))"
  using assms crearUsuario_efecto[of n s]
  by (simp add: inv_def claves_ok_crearUsuario contadores_ok_def prestamos_ok_def)

lemma inv_prestarLibro:
  assumes "inv s"
  shows "inv (snd (prestarLibro ahora b u s))"
proof -
  let ?s' = "snd (prestarLibro ahora b u s)"
  let ?i = "prestamo (nextIds s)"
  let ?p = "new_Prestamo ?i b u ahora"
  from assms have ck: "claves_ok s" and cn: "contadores_ok s" and po: "prestamos_ok s"
    by (simp_all add: inv_def)
  from prestarLibro_efecto[of ahora b u s] show ?thesis
  proof (elim disjE exE conjE)
    assume "?s' = s"
    then show ?thesis using assms by simp
  next
    fix l
    assume get: "Map_get (libros s) b = Some l" and disp: "disponible l"
      and L: "libros ?s' = Map_set b (l\<lparr>disponible := False\<rparr>) (libros s)"
      and P: "prestamos ?s' = Map_set ?i ?p (prestamos s)"
      and N: "nextIds ?s' = (nextIds s)\<lparr>prestamo := ?i + 1\<rparr>"
    have fresh: "?i \<notin> claves (prestamos s)"
      using cn by (auto simp: contadores_ok_def)
    have dist: "distinct (map fst (libros s))"
      using ck by (simp add: claves_ok_def claves_por_def)
    have bin: "b \<in> claves (libros s)" using get by (rule Map_get_claves)
    have cnt: "n_activos (prestamos ?s') x = n_activos (prestamos s) x + (if x = b then 1 else 0)"
      for x
      by (simp add: P n_activos_nuevo[OF fresh] new_Prestamo_def isActivo_def)
    have "n_activos (prestamos s) b \<noteq> 1"
      using po Map_get_in[OF get] disp by (auto simp: prestamos_ok_def)
    moreover have le: "n_activos (prestamos s) x \<le> 1" for x
      using po by (simp add: prestamos_ok_def)
    ultimately have zero: "n_activos (prestamos s) b = 0"
      using le[of b] by linarith
    have lp: "libroId ?p = b" by (simp add: new_Prestamo_def)
    have v: "libroId q \<in> claves (libros s)" if "q \<in> valores (Map_set ?i ?p (prestamos s))" for q
      using valores_Map_set[OF that] cn bin lp by (auto simp: contadores_ok_def)
    have c1: "contadores_ok ?s'"
      using cn bin v unfolding contadores_ok_def
      by (simp add: L P N claves_Map_set insert_absorb) force
    have c2: "prestamos_ok ?s'"
      using po zero le unfolding prestamos_ok_def
      by (auto simp: L cnt set_Map_set[OF dist])
    show ?thesis
      using ck c1 c2 by (simp add: inv_def claves_ok_prestarLibro)
  qed
qed

lemma inv_devolverLibro:
  assumes "inv s" and "ahora \<noteq> []"
  shows "inv (snd (devolverLibro ahora pid s))"
proof -
  let ?s' = "snd (devolverLibro ahora pid s)"
  from assms have ck: "claves_ok s" and cn: "contadores_ok s" and po: "prestamos_ok s"
    by (simp_all add: inv_def)
  from devolverLibro_efecto[of ahora pid s] show ?thesis
  proof (elim disjE exE conjE)
    assume "?s' = s"
    then show ?thesis using assms by simp
  next
    fix p :: Prestamo and l :: Libro
    let ?p' = "p\<lparr>fechaDevolucion := Some ahora\<rparr>"
    let ?b = "libroId p"
    assume getp: "Map_get (prestamos s) pid = Some p" and act: "isActivo p"
      and getl: "Map_get (libros s) ?b = Some l"
      and P: "prestamos ?s' = Map_set pid ?p' (prestamos s)"
      and L: "libros ?s' = Map_set ?b (snd (Libro_devolver l)) (libros s)"
      and N: "nextIds ?s' = nextIds s"
    have dist: "distinct (map fst (libros s))"
      using ck by (simp add: claves_ok_def claves_por_def)
    have bin: "?b \<in> claves (libros s)" using getl by (rule Map_get_claves)
    have pin: "pid \<in> claves (prestamos s)" using getp by (rule Map_get_claves)
    have lp: "libroId ?p' = ?b" by simp
    have inact: "\<not> isActivo ?p'" using assms(2) by (simp add: isActivo_def)
    have cnt: "n_activos (prestamos ?s') x + (if x = ?b then 1 else 0) = n_activos (prestamos s) x"
      for x
      using n_activos_modificar[OF getp, of ?p' x] act inact by (auto simp: P)
    have le: "n_activos (prestamos s) x \<le> 1" for x
      using po by (simp add: prestamos_ok_def)
    have one: "n_activos (prestamos s) ?b = 1"
      using cnt[of ?b] le[of ?b] by simp
    have zero: "n_activos (prestamos ?s') ?b = 0"
      using cnt[of ?b] one by simp
    have other: "x \<noteq> ?b \<Longrightarrow> n_activos (prestamos ?s') x = n_activos (prestamos s) x" for x
      using cnt[of x] by simp
    have nd: "\<not> disponible l"
      using po Map_get_in[OF getl] one by (auto simp: prestamos_ok_def)
    have L': "libros ?s' = Map_set ?b (l\<lparr>disponible := True\<rparr>) (libros s)"
      using nd by (simp add: L Libro_devolver_def)
    have v: "libroId q \<in> claves (libros s)" if "q \<in> valores (Map_set pid ?p' (prestamos s))" for q
      using valores_Map_set[OF that] cn bin lp by (auto simp: contadores_ok_def)
    have c1: "contadores_ok ?s'"
      using cn bin pin v unfolding contadores_ok_def
      by (simp add: L P N claves_Map_set insert_absorb)
    have c2: "prestamos_ok ?s'"
      unfolding prestamos_ok_def
    proof (intro conjI allI ballI)
      fix x show "n_activos (prestamos ?s') x \<le> 1"
        using cnt[of x] le[of x] by (simp split: if_splits)
    next
      fix e assume e: "e \<in> set (libros ?s')"
      show "case e of (k, l) \<Rightarrow> (\<not> disponible l) = (n_activos (prestamos ?s') k = 1)"
        using e po zero other unfolding prestamos_ok_def
        by (auto simp: L' set_Map_set[OF dist])
    qed
    show ?thesis
      using ck c1 c2 by (simp add: inv_def claves_ok_devolverLibro)
  qed
qed

lemma inv_ejecutar: "inv s \<Longrightarrow> reloj_ok c \<Longrightarrow> inv (ejecutar s c)"
  by (cases c) (simp_all add: inv_crearLibro inv_crearUsuario inv_prestarLibro inv_devolverLibro)

lemma inv_foldl: "inv s \<Longrightarrow> \<forall>c \<in> set cs. reloj_ok c \<Longrightarrow> inv (foldl ejecutar s cs)"
  by (induction cs arbitrary: s) (simp_all add: inv_ejecutar)



section \<open>The example catalog, evaluated\<close>

lemma libros_ej: "libros biblio_ej = [(1, libro1_ej), (2, libro2_ej)]"
  by (simp add: biblio_ej_def datos_ej_def libro1_ej_def libro2_ej_def new_Biblioteca_def
      load_def Map_set_def Libro_fromJSON_def new_Libro_def Libro_prestar_def Let_def)

lemma usuarios_ej: "usuarios biblio_ej = [(1, \<lparr>u_id = 1, nombre = ''Ana Perez''\<rparr>)]"
  by (simp add: biblio_ej_def datos_ej_def new_Biblioteca_def load_def Map_set_def
      Usuario_fromJSON_def Let_def)

lemma prestamos_ej:
  "prestamos biblio_ej =
     [(1, prestamo_ej 1 2 ''2024-01-01T10:00:00.000Z'' (Some ''2024-01-08T10:00:00.000Z'')),
      (2, prestamo_ej 2 2 ''2024-02-01T10:00:00.000Z'' None),
      (3, prestamo_ej 3 99 ''2024-02-02T10:00:00.000Z'' None),
      (4, prestamo_ej 4 1 ''2024-02-03T10:00:00.000Z'' None)]"
  by (simp add: biblio_ej_def datos_ej_def prestamo_ej_def new_Biblioteca_def load_def
      Map_set_def Prestamo_fromJSON_def Let_def)

lemma nextIds_ej: "nextIds biblio_ej = \<lparr>libro = 3, usuario = 2, prestamo = 5\<rparr>"
  by (simp add: biblio_ej_def datos_ej_def new_Biblioteca_def load_def Let_def)

lemma libro_get_ej:
  "Map_get (libros biblio_ej) 1 = Some libro1_ej"
  "Map_get (libros biblio_ej) 2 = Some libro2_ej"
  "Map_get (libros biblio_ej) 7 = None"
  "Map_get (libros biblio_ej) 99 = None"
  by (simp_all add: libros_ej Map_get_def)

lemma usuario_get_ej:
  "Map_get (usuarios biblio_ej) 1 = Some \<lparr>u_id = 1, nombre = ''Ana Perez''\<rparr>"
  "Map_get (usuarios biblio_ej) 9 = None"
  by (simp_all add: usuarios_ej Map_get_def)

lemma prestamo_get_ej:
  "Map_get (prestamos biblio_ej) 1
     = Some (prestamo_ej 1 2 ''2024-01-01T10:00:00.000Z'' (Some ''2024-01-08T10:00:00.000Z''))"
  "Map_get (prestamos biblio_ej) 2 = Some (prestamo_ej 2 2 ''2024-02-01T10:00:00.000Z'' None)"
  "Map_get (prestamos biblio_ej) 3 = Some (prestamo_ej 3 99 ''2024-02-02T10:00:00.000Z'' None)"
  "Map_get (prestamos biblio_ej) 4 = Some (prestamo_ej 4 1 ''2024-02-03T10:00:00.000Z'' None)"
  "Map_get (prestamos biblio_ej) 9 = None"
  by (simp_all add: prestamos_ej Map_get_def)

lemma estado_ej:
  "isDisponible libro1_ej" "\<not> isDisponible libro2_ej"
  "isActivo (prestamo_ej i b f None)"
  "\<not> isActivo (prestamo_ej 1 2 ''2024-01-01T10:00:00.000Z'' (Some ''2024-01-08T10:00:00.000Z''))"
  "libroId (prestamo_ej i b f d) = b"
  by (simp_all add: isDisponible_def isActivo_def libro1_ej_def libro2_ej_def prestamo_ej_def)

section \<open>The claims\<close>

text \<open>
  C1. In every catalog state reached from the empty catalog (the constructor on a storage
  with no previous data) by any sequence of \<open>crearLibro\<close>, \<open>crearUsuario\<close>,
  \<open>prestarLibro\<close> and \<open>devolverLibro\<close> calls, each book identifier is referenced by at
  most one active loan, and a book is unavailable exactly when one active loan references
  its identifier. The clock readings of the calls are strings \<^verbatim>\<open>toISOString\<close> can return,
  that is, non-empty ones.
\<close>

theorem sin_doble_prestamo:
  assumes "\<forall>c \<in> set cs. reloj_ok c"
  shows "(\<forall>b. length (prestamos_activos_de (foldl ejecutar (new_Biblioteca None) cs) b) \<le> 1)
       \<and> (\<forall>l \<in> set (listarLibros (foldl ejecutar (new_Biblioteca None) cs)).
            \<not> isDisponible l \<longleftrightarrow>
            length (prestamos_activos_de (foldl ejecutar (new_Biblioteca None) cs) (l_id l)) = 1)"
proof -
  let ?s = "foldl ejecutar (new_Biblioteca None) cs"
  have i: "inv ?s" using assms by (intro inv_foldl inv_new)
  then have po: "prestamos_ok ?s" and ck: "claves_ok ?s" by (simp_all add: inv_def)
  have a: "\<forall>b. length (prestamos_activos_de ?s b) \<le> 1"
    using po by (simp add: length_activos_de prestamos_ok_def)
  have b: "\<not> isDisponible l \<longleftrightarrow> length (prestamos_activos_de ?s (l_id l)) = 1"
    if "l \<in> set (listarLibros ?s)" for l
  proof -
    from that obtain k where kl: "(k, l) \<in> set (libros ?s)"
      by (auto simp: listarLibros_def Map_values_def)
    then have "l_id l = k" using ck by (auto simp: claves_ok_def claves_por_def)
    then show ?thesis
      using po kl by (auto simp: length_activos_de prestamos_ok_def isDisponible_def)
  qed
  show ?thesis using a b by blast
qed

theorem sin_doble_prestamo_witness:
  "list_all reloj_ok llamadas_ej
   \<and> (\<forall>b. length (prestamos_activos_de (foldl ejecutar (new_Biblioteca None) llamadas_ej) b) \<le> 1)
   \<and> list_all
        (\<lambda>l. \<not> isDisponible l \<longleftrightarrow>
           length (prestamos_activos_de (foldl ejecutar (new_Biblioteca None) llamadas_ej)
             (l_id l)) = 1)
        (listarLibros (foldl ejecutar (new_Biblioteca None) llamadas_ej))"
proof -
  have h: "\<forall>c \<in> set llamadas_ej. reloj_ok c"
    by (simp add: llamadas_ej_def)
  show ?thesis
    using h sin_doble_prestamo[OF h] unfolding list_all_iff by blast
qed

text \<open>
  C2. \<open>prestarLibro\<close> checks, in this order, that the book exists, that the patron exists
  and that the book is available. The first check that fails decides the message, whatever
  the later ones would say, and every failing call returns \<open>ok = False\<close>, no loan, and the
  state it was given: collections, counters and storage.
\<close>

theorem prestarLibro_validaciones:
  "(Map_get (libros s) b = None \<longrightarrow>
      prestarLibro ahora b u s =
        (\<lparr>ok = False, mensaje = ''Libro no encontrado'', r_prestamo = None\<rparr>, s))
   \<and> (Map_get (libros s) b \<noteq> None \<and> Map_get (usuarios s) u = None \<longrightarrow>
      prestarLibro ahora b u s =
        (\<lparr>ok = False, mensaje = ''Usuario no encontrado'', r_prestamo = None\<rparr>, s))
   \<and> (\<forall>l. Map_get (libros s) b = Some l \<and> Map_get (usuarios s) u \<noteq> None \<and> \<not> isDisponible l \<longrightarrow>
      prestarLibro ahora b u s =
        (\<lparr>ok = False, mensaje = ''Libro no disponible'', r_prestamo = None\<rparr>, s))
   \<and> (\<not> ok (fst (prestarLibro ahora b u s)) \<longrightarrow>
        snd (prestarLibro ahora b u s) = s \<and> r_prestamo (fst (prestarLibro ahora b u s)) = None)"
  by (auto simp: prestarLibro_def Let_def split: option.splits)

theorem prestarLibro_validaciones_witness:
  "Map_get (libros biblio_ej) 7 = None \<and> Map_get (usuarios biblio_ej) 9 = None
   \<and> prestarLibro ahora_ej 7 9 biblio_ej =
       (\<lparr>ok = False, mensaje = ''Libro no encontrado'', r_prestamo = None\<rparr>, biblio_ej)
   \<and> Map_get (libros biblio_ej) 2 = Some libro2_ej \<and> \<not> isDisponible libro2_ej
   \<and> prestarLibro ahora_ej 2 9 biblio_ej =
       (\<lparr>ok = False, mensaje = ''Usuario no encontrado'', r_prestamo = None\<rparr>, biblio_ej)
   \<and> Map_get (usuarios biblio_ej) 1 \<noteq> None
   \<and> prestarLibro ahora_ej 2 1 biblio_ej =
       (\<lparr>ok = False, mensaje = ''Libro no disponible'', r_prestamo = None\<rparr>, biblio_ej)
   \<and> \<not> ok (fst (prestarLibro ahora_ej 2 1 biblio_ej))
   \<and> snd (prestarLibro ahora_ej 2 1 biblio_ej) = biblio_ej"
  using prestarLibro_validaciones[of biblio_ej 7 ahora_ej 9]
    prestarLibro_validaciones[of biblio_ej 2 ahora_ej 9]
    prestarLibro_validaciones[of biblio_ej 2 ahora_ej 1]
  by (simp add: libro_get_ej usuario_get_ej estado_ej)

text \<open>
  C3. \<open>devolverLibro\<close> checks, in this order, that the loan exists, that it is active and
  that the book it references exists. Each failure returns \<open>ok = False\<close> with its message,
  and every failing call returns the state it was given: no return date is set, no
  availability changes, no counter moves, nothing is saved.
\<close>

theorem devolverLibro_validaciones:
  "(Map_get (prestamos s) pid = None \<longrightarrow>
      devolverLibro ahora pid s =
        (\<lparr>ok = False, mensaje = Prestamo_txt @ '' no encontrado''\<rparr>, s))
   \<and> (\<forall>p. Map_get (prestamos s) pid = Some p \<and> \<not> isActivo p \<longrightarrow>
      devolverLibro ahora pid s = (\<lparr>ok = False, mensaje = ''Ya devuelto''\<rparr>, s))
   \<and> (\<forall>p. Map_get (prestamos s) pid = Some p \<and> isActivo p
          \<and> Map_get (libros s) (libroId p) = None \<longrightarrow>
      devolverLibro ahora pid s = (\<lparr>ok = False, mensaje = ''Libro inexistente''\<rparr>, s))
   \<and> (\<not> ok (fst (devolverLibro ahora pid s)) \<longrightarrow> snd (devolverLibro ahora pid s) = s)"
  by (auto simp: devolverLibro_def Let_def split: option.splits)

theorem devolverLibro_validaciones_witness:
  "Map_get (prestamos biblio_ej) 9 = None
   \<and> devolverLibro ahora_ej 9 biblio_ej =
       (\<lparr>ok = False, mensaje = Prestamo_txt @ '' no encontrado''\<rparr>, biblio_ej)
   \<and> Map_get (prestamos biblio_ej) 1
       = Some (prestamo_ej 1 2 ''2024-01-01T10:00:00.000Z'' (Some ''2024-01-08T10:00:00.000Z''))
   \<and> devolverLibro ahora_ej 1 biblio_ej = (\<lparr>ok = False, mensaje = ''Ya devuelto''\<rparr>, biblio_ej)
   \<and> Map_get (prestamos biblio_ej) 3 = Some (prestamo_ej 3 99 ''2024-02-02T10:00:00.000Z'' None)
   \<and> Map_get (libros biblio_ej) 99 = None
   \<and> devolverLibro ahora_ej 3 biblio_ej =
       (\<lparr>ok = False, mensaje = ''Libro inexistente''\<rparr>, biblio_ej)
   \<and> \<not> ok (fst (devolverLibro ahora_ej 3 biblio_ej))
   \<and> snd (devolverLibro ahora_ej 3 biblio_ej) = biblio_ej"
  using devolverLibro_validaciones[of biblio_ej 9 ahora_ej]
    devolverLibro_validaciones[of biblio_ej 1 ahora_ej]
    devolverLibro_validaciones[of biblio_ej 3 ahora_ej]
  by (simp add: libro_get_ej prestamo_get_ej estado_ej)

text \<open>
  C4. Saving and loading is the identity on the catalog. For every state a catalog can be
  in (built by the constructor from any storage content, then driven by any sequence of
  calls), a new catalog constructed on a storage that holds the snapshot of that state has
  the same three collections, entity by entity and field by field, in the same order, and
  the same three counters.
\<close>

theorem roundtrip:
  "libros (new_Biblioteca (Some (snapshot (foldl ejecutar (new_Biblioteca st) cs))))
     = libros (foldl ejecutar (new_Biblioteca st) cs)
   \<and> usuarios (new_Biblioteca (Some (snapshot (foldl ejecutar (new_Biblioteca st) cs))))
     = usuarios (foldl ejecutar (new_Biblioteca st) cs)
   \<and> prestamos (new_Biblioteca (Some (snapshot (foldl ejecutar (new_Biblioteca st) cs))))
     = prestamos (foldl ejecutar (new_Biblioteca st) cs)
   \<and> nextIds (new_Biblioteca (Some (snapshot (foldl ejecutar (new_Biblioteca st) cs))))
     = nextIds (foldl ejecutar (new_Biblioteca st) cs)"
  by (rule load_snapshot) (simp add: claves_ok_foldl claves_ok_new)

text \<open>
  C5. After \<open>crearLibro\<close>, after \<open>crearUsuario\<close>, and after a \<open>prestarLibro\<close> or a
  \<open>devolverLibro\<close> that reports success, the storage holds the full snapshot of the state
  the operation returns: all its books, patrons and loans serialized, and its counters.
  That state is the one after the mutation: it lists the book or patron just created, the
  loan just registered, or the loan with the return date just set.
\<close>

theorem persistencia:
  "storage (snd (crearLibro t a y s)) = Some (instantanea_completa (snd (crearLibro t a y s)))
   \<and> fst (crearLibro t a y s) \<in> set (listarLibros (snd (crearLibro t a y s)))
   \<and> storage (snd (crearUsuario n s)) = Some (instantanea_completa (snd (crearUsuario n s)))
   \<and> fst (crearUsuario n s) \<in> set (listarUsuarios (snd (crearUsuario n s)))
   \<and> (ok (fst (prestarLibro ahora b u s)) \<longrightarrow>
        storage (snd (prestarLibro ahora b u s))
          = Some (instantanea_completa (snd (prestarLibro ahora b u s)))
      \<and> (\<exists>p. r_prestamo (fst (prestarLibro ahora b u s)) = Some p
             \<and> p \<in> set (listarPrestamos False (snd (prestarLibro ahora b u s)))))
   \<and> (ok (fst (devolverLibro ahora pid s)) \<longrightarrow>
        storage (snd (devolverLibro ahora pid s))
          = Some (instantanea_completa (snd (devolverLibro ahora pid s)))
      \<and> (\<exists>p. Map_get (prestamos (snd (devolverLibro ahora pid s))) pid = Some p
             \<and> fechaDevolucion p = Some ahora))"
proof -
  have cl: "storage (snd (crearLibro t a y s)) = Some (instantanea_completa (snd (crearLibro t a y s)))"
    by (simp add: crearLibro_def Let_def storage_save_completa)
  have cl2: "fst (crearLibro t a y s) \<in> set (listarLibros (snd (crearLibro t a y s)))"
    by (simp add: crearLibro_def Let_def save_def listarLibros_def Map_values_set)
  have cu: "storage (snd (crearUsuario n s)) = Some (instantanea_completa (snd (crearUsuario n s)))"
    by (simp add: crearUsuario_def Let_def storage_save_completa)
  have cu2: "fst (crearUsuario n s) \<in> set (listarUsuarios (snd (crearUsuario n s)))"
    by (simp add: crearUsuario_def Let_def save_def listarUsuarios_def Map_values_set)
  have pl: "storage (snd (prestarLibro ahora b u s))
          = Some (instantanea_completa (snd (prestarLibro ahora b u s)))
      \<and> (\<exists>p. r_prestamo (fst (prestarLibro ahora b u s)) = Some p
             \<and> p \<in> set (listarPrestamos False (snd (prestarLibro ahora b u s))))"
    if "ok (fst (prestarLibro ahora b u s))"
    using that
    by (auto simp: prestarLibro_def Let_def storage_save_completa Map_values_set
        split: option.splits if_splits)
       (simp_all add: save_def listarPrestamos_def Map_values_set)
  have dl: "storage (snd (devolverLibro ahora pid s))
          = Some (instantanea_completa (snd (devolverLibro ahora pid s)))
      \<and> (\<exists>p. Map_get (prestamos (snd (devolverLibro ahora pid s))) pid = Some p
             \<and> fechaDevolucion p = Some ahora)"
    if "ok (fst (devolverLibro ahora pid s))"
    using that
    by (auto simp: devolverLibro_def Let_def storage_save_completa
        split: option.splits if_splits)
       (simp_all add: save_def Map_get_set_same Prestamo_devolver_def)
  show ?thesis using cl cl2 cu cu2 pl dl by blast
qed

theorem persistencia_witness:
  "ok (fst (prestarLibro ahora_ej 1 1 biblio_ej))
   \<and> storage (snd (prestarLibro ahora_ej 1 1 biblio_ej))
       = Some (instantanea_completa (snd (prestarLibro ahora_ej 1 1 biblio_ej)))
   \<and> (\<exists>p. r_prestamo (fst (prestarLibro ahora_ej 1 1 biblio_ej)) = Some p
          \<and> p \<in> set (listarPrestamos False (snd (prestarLibro ahora_ej 1 1 biblio_ej))))
   \<and> ok (fst (devolverLibro ahora_ej 2 biblio_ej))
   \<and> storage (snd (devolverLibro ahora_ej 2 biblio_ej))
       = Some (instantanea_completa (snd (devolverLibro ahora_ej 2 biblio_ej)))
   \<and> (\<exists>p. Map_get (prestamos (snd (devolverLibro ahora_ej 2 biblio_ej))) 2 = Some p
          \<and> fechaDevolucion p = Some ahora_ej)"
proof -
  have p: "ok (fst (prestarLibro ahora_ej 1 1 biblio_ej))"
    by (simp add: prestarLibro_def libro_get_ej usuario_get_ej estado_ej Let_def)
  have d: "ok (fst (devolverLibro ahora_ej 2 biblio_ej))"
    by (simp add: devolverLibro_def libro_get_ej prestamo_get_ej estado_ej Let_def)
  show ?thesis
    using p d persistencia[of "''El Quijote''" "''Miguel de Cervantes''" 1605 biblio_ej
        "''Carlos Lopez''" ahora_ej 1 1 2]
    by blast
qed

text \<open>
  C6. On an active loan, two calls of \<open>Prestamo.devolver\<close> in a row return true, then
  false, for every loan and every pair of timestamps: the first call sets the return date,
  the second changes nothing, and the date of the first call stays. A timestamp is a
  string as \<^verbatim>\<open>toISOString\<close> returns it, so it is not the empty string; the second timestamp
  is not even used.
\<close>

theorem devolver_dos_veces:
  assumes "isActivo p" and "t1 \<noteq> []"
  shows "fst (Prestamo_devolver t1 p) = True
       \<and> fechaDevolucion (snd (Prestamo_devolver t1 p)) = Some t1
       \<and> fst (Prestamo_devolver t2 (snd (Prestamo_devolver t1 p))) = False
       \<and> snd (Prestamo_devolver t2 (snd (Prestamo_devolver t1 p))) = snd (Prestamo_devolver t1 p)
       \<and> fechaDevolucion (snd (Prestamo_devolver t2 (snd (Prestamo_devolver t1 p)))) = Some t1"
  using assms by (simp add: Prestamo_devolver_def isActivo_def)

theorem devolver_dos_veces_witness:
  "isActivo (new_Prestamo 1 1 1 ''2024-01-01T10:00:00.000Z'')
   \<and> ''2024-01-08T10:00:00.000Z'' \<noteq> []
   \<and> fst (Prestamo_devolver ''2024-01-08T10:00:00.000Z''
        (new_Prestamo 1 1 1 ''2024-01-01T10:00:00.000Z'')) = True
   \<and> fst (Prestamo_devolver ''2024-01-09T10:00:00.000Z''
        (snd (Prestamo_devolver ''2024-01-08T10:00:00.000Z''
          (new_Prestamo 1 1 1 ''2024-01-01T10:00:00.000Z'')))) = False
   \<and> fechaDevolucion (snd (Prestamo_devolver ''2024-01-09T10:00:00.000Z''
        (snd (Prestamo_devolver ''2024-01-08T10:00:00.000Z''
          (new_Prestamo 1 1 1 ''2024-01-01T10:00:00.000Z'')))))
       = Some ''2024-01-08T10:00:00.000Z''"
proof -
  have h1: "isActivo (new_Prestamo 1 1 1 ''2024-01-01T10:00:00.000Z'')"
    by (simp add: isActivo_def new_Prestamo_def)
  have h2: "''2024-01-08T10:00:00.000Z'' \<noteq> []" by simp
  show ?thesis
    using h1 h2 devolver_dos_veces[OF h1 h2, of "''2024-01-09T10:00:00.000Z''"] by blast
qed

text \<open>
  The hypothesis on the first timestamp is needed: \<open>isActivo\<close> negates the stored date, and
  the negation of the empty string is true.
\<close>

lemma devolver_fecha_vacia:
  "isActivo (snd (Prestamo_devolver [] (new_Prestamo 1 1 1 ''2024-01-01T10:00:00.000Z'')))"
  by (simp add: Prestamo_devolver_def isActivo_def new_Prestamo_def)

text \<open>
  C7. In \<open>prestarLibro\<close>, when the book exists, the patron exists and the book is available,
  the call \<open>libro.prestar()\<close> returns true: the operation succeeds and the book stored
  afterwards is the one \<open>Libro_prestar\<close> produced, no longer available.
\<close>

theorem prestar_interno:
  assumes "Map_get (libros s) b = Some l" and "Map_get (usuarios s) u \<noteq> None"
    and "isDisponible l"
  shows "fst (Libro_prestar l) = True
       \<and> ok (fst (prestarLibro ahora b u s))
       \<and> Map_get (libros (snd (prestarLibro ahora b u s))) b = Some (snd (Libro_prestar l))
       \<and> \<not> isDisponible (snd (Libro_prestar l))"
  using assms
  by (auto simp: prestarLibro_def Let_def save_def Map_get_set_same Libro_prestar_def
        isDisponible_def split: option.splits)

theorem prestar_interno_witness:
  "Map_get (libros biblio_ej) 1 = Some libro1_ej \<and> Map_get (usuarios biblio_ej) 1 \<noteq> None
   \<and> isDisponible libro1_ej
   \<and> fst (Libro_prestar libro1_ej) = True
   \<and> ok (fst (prestarLibro ahora_ej 1 1 biblio_ej))
   \<and> Map_get (libros (snd (prestarLibro ahora_ej 1 1 biblio_ej))) 1
       = Some (snd (Libro_prestar libro1_ej))
   \<and> \<not> isDisponible (snd (Libro_prestar libro1_ej))"
proof -
  have h1: "Map_get (libros biblio_ej) 1 = Some libro1_ej" by (simp add: libro_get_ej)
  have h2: "Map_get (usuarios biblio_ej) 1 \<noteq> None" by (simp add: usuario_get_ej)
  have h3: "isDisponible libro1_ej" by (simp add: estado_ej)
  show ?thesis
    using h1 h2 h3 prestar_interno[OF h1 h2 h3, of ahora_ej] by blast
qed


text \<open>
  C9. When the loan exists, is active and its book exists, \<open>devolverLibro\<close> reports success
  whatever \<open>libro.devolver()\<close> returns, and stores the return date in the loan (which
  closes it, the date being a non-empty string). If the book was already available,
  \<open>Libro_devolver\<close> returns false and leaves the book as it was, and the operation succeeds
  all the same; otherwise it returns true and the book becomes available.
\<close>

theorem devolverLibro_exito_incondicional:
  assumes "Map_get (prestamos s) pid = Some p" and "isActivo p"
    and "Map_get (libros s) (libroId p) = Some l"
  shows "fst (devolverLibro ahora pid s) = \<lparr>ok = True, mensaje = ''Libro devuelto''\<rparr>
       \<and> Map_get (prestamos (snd (devolverLibro ahora pid s))) pid
           = Some (p\<lparr>fechaDevolucion := Some ahora\<rparr>)
       \<and> (ahora \<noteq> [] \<longrightarrow> \<not> isActivo (p\<lparr>fechaDevolucion := Some ahora\<rparr>))
       \<and> (isDisponible l \<longrightarrow>
            fst (Libro_devolver l) = False
          \<and> Map_get (libros (snd (devolverLibro ahora pid s))) (libroId p) = Some l)
       \<and> (\<not> isDisponible l \<longrightarrow>
            fst (Libro_devolver l) = True
          \<and> Map_get (libros (snd (devolverLibro ahora pid s))) (libroId p)
              = Some (l\<lparr>disponible := True\<rparr>))"
  using assms
  by (simp add: devolverLibro_def Let_def save_def Map_get_set_same Prestamo_devolver_def
      Libro_devolver_def isDisponible_def isActivo_def)

theorem devolverLibro_exito_incondicional_witness:
  "Map_get (prestamos biblio_ej) 4 = Some (prestamo_ej 4 1 ''2024-02-03T10:00:00.000Z'' None)
   \<and> isActivo (prestamo_ej 4 1 ''2024-02-03T10:00:00.000Z'' None)
   \<and> Map_get (libros biblio_ej) 1 = Some libro1_ej
   \<and> isDisponible libro1_ej \<and> ahora_ej \<noteq> []
   \<and> fst (devolverLibro ahora_ej 4 biblio_ej) = \<lparr>ok = True, mensaje = ''Libro devuelto''\<rparr>
   \<and> Map_get (prestamos (snd (devolverLibro ahora_ej 4 biblio_ej))) 4
       = Some ((prestamo_ej 4 1 ''2024-02-03T10:00:00.000Z'' None)
                \<lparr>fechaDevolucion := Some ahora_ej\<rparr>)
   \<and> \<not> isActivo ((prestamo_ej 4 1 ''2024-02-03T10:00:00.000Z'' None)
                  \<lparr>fechaDevolucion := Some ahora_ej\<rparr>)
   \<and> fst (Libro_devolver libro1_ej) = False
   \<and> Map_get (libros (snd (devolverLibro ahora_ej 4 biblio_ej))) 1 = Some libro1_ej"
proof -
  let ?p = "prestamo_ej 4 1 ''2024-02-03T10:00:00.000Z'' None"
  have h1: "Map_get (prestamos biblio_ej) 4 = Some ?p" by (simp add: prestamo_get_ej)
  have h2: "isActivo ?p" by (simp add: estado_ej)
  have h3: "Map_get (libros biblio_ej) (libroId ?p) = Some libro1_ej"
    by (simp add: estado_ej libro_get_ej)
  have h4: "isDisponible libro1_ej" by (simp add: estado_ej)
  have h5: "ahora_ej \<noteq> []" by (simp add: ahora_ej_def)
  have h6: "libroId ?p = 1" by (simp add: estado_ej)
  show ?thesis
    using h1 h2 h3 h4 h5 devolverLibro_exito_incondicional[OF h1 h2 h3, of ahora_ej]
    unfolding h6 by blast
qed



end
